theory Spec2Isabelle
  imports Main
begin

section \<open>Backup rotation runner (Backup-Replication.py)\<close>

text \<open>
  The script is one module: it reads a configuration, resolves today's weekday, compresses
  the file mapped to it, copies the archive to a file server, deletes the files mapped to
  the next weekdays, removes the temporary archive and reports by email. The embedding is
  a state-passing one: the file system, the log, the notifications handed to
  \<open>send_email\<close> and the module-level flag \<open>process_success\<close> form the state; the
  failures of the outside world (archive creation, copying, removal, SMTP) are read from
  an environment record, so that each run is a function of its inputs.
\<close>

subsection \<open>Exceptions and results\<close>

text \<open>
  \<open>Exception m\<close> stands for any exception caught by \<open>except Exception\<close>, carrying the
  text of \<open>str(e)\<close>; \<open>SystemExit n\<close> is what \<open>exit(n)\<close> raises. \<open>SystemExit\<close> is not
  an \<open>Exception\<close> in Python, so only the former is caught by the handlers of the script.
\<close>

datatype raised = Exception string | SystemExit int

subsection \<open>Weekday arithmetic (lines 69-72)\<close>

definition days_of_week :: "string list" where
  "days_of_week =
     [''Sunday'', ''Monday'', ''Tuesday'', ''Wednesday'', ''Thursday'', ''Friday'', ''Saturday'']"

text \<open>\<open>list.index\<close>: the position of the first occurrence, or no result (ValueError).\<close>

fun index_of :: "'a list \<Rightarrow> 'a \<Rightarrow> nat option" where
  "index_of [] x = None"
| "index_of (y # ys) x = (if y = x then Some 0 else map_option Suc (index_of ys x))"

text \<open>
  \<open>days_ahead\<close> is a Python integer; \<open>range(1, days_ahead + 1)\<close> is the list \<open>[1..days_ahead]\<close>,
  empty when \<open>days_ahead < 1\<close>. The index is looked up before the list is built, so an
  unknown name raises whatever the count is.
\<close>

definition get_next_days :: "string \<Rightarrow> int \<Rightarrow> raised + string list" where
  "get_next_days day_name days_ahead =
     (case index_of days_of_week day_name of
        None \<Rightarrow> Inl (Exception ([CHR 0x27] @ day_name @ [CHR 0x27] @ '' is not in list''))
      | Some start_index \<Rightarrow>
          Inr (map (\<lambda>i. days_of_week ! nat ((int start_index + i) mod 7)) [1..days_ahead]))"

subsection \<open>Paths (os.path, POSIX flavour)\<close>

text \<open>
  Paths are strings. \<open>join\<close> is \<open>os.path.join\<close> with two arguments: an absolute second
  argument replaces the first, otherwise the parts are joined by one separator.
  \<open>basename\<close> is the text after the last separator. \<open>splitext_root\<close> is
  \<open>os.path.splitext(p)[0]\<close>: the path without its extension, where an extension starts
  at the last dot of the last component unless only dots precede it there.
\<close>

definition join :: "string \<Rightarrow> string \<Rightarrow> string" where
  "join a b =
     (if take 1 b = ''/'' then b
      else if a = [] \<or> last a = CHR ''/'' then a @ b
      else a @ ''/'' @ b)"

definition basename :: "string \<Rightarrow> string" where
  "basename p = rev (takeWhile (\<lambda>c. c \<noteq> CHR ''/'') (rev p))"

definition rfind :: "char \<Rightarrow> string \<Rightarrow> int" where
  "rfind c p =
     (case index_of (rev p) c of
        None \<Rightarrow> - 1
      | Some k \<Rightarrow> int (length p) - 1 - int k)"

definition splitext_root :: "string \<Rightarrow> string" where
  "splitext_root p =
     (let sepIndex = rfind (CHR ''/'') p; dotIndex = rfind (CHR ''.'') p
      in if dotIndex > sepIndex \<and>
            list_ex (\<lambda>c. c \<noteq> CHR ''.'')
              (take (nat (dotIndex - (sepIndex + 1))) (drop (nat (sepIndex + 1)) p))
         then take (nat dotIndex) p
         else p)"

subsection \<open>Configuration, environment and state\<close>

text \<open>
  The configuration holds the keys of \<open>config.json\<close> that the workflow reads. The log
  directory and the email settings only select where the log file is written and which
  server is contacted; they are not part of the model.
\<close>

record config =
  SOURCE_DIRECTORY :: string
  FILE_SERVER_DIRECTORY :: string
  FILES_MAP :: "string \<rightharpoonup> string"
  DAYS_TO_DELETE :: int

text \<open>
  A file is raw data or an archive, a list of members with their stored names.
\<close>

datatype content = Raw "nat list" | Zip "(string \<times> content) list"

text \<open>
  The environment answers what the script cannot decide: whether a path is a directory,
  and whether an operation of the outside world fails, with the text of the error.
  \<open>smtp_err k\<close> is the outcome of the \<open>k\<close>-th call of \<open>send_email\<close> (counted from 0);
  \<open>format_exc\<close> is the traceback text of an exception.
\<close>

record env =
  isdir :: "string \<Rightarrow> bool"
  zip_open_err :: "string option"
  zip_write_err :: "string option"
  copy_err :: "string option"
  remove_err :: "string \<Rightarrow> string option"
  smtp_err :: "nat \<Rightarrow> string option"
  format_exc :: "string \<Rightarrow> string"

datatype level = INFO | ERROR

text \<open>
  \<open>sent\<close> lists the calls of \<open>send_email\<close> in order: subject, body, and whether the
  message was delivered. \<open>process_success\<close> is the module-level variable of line 16.
\<close>

record state =
  fs :: "string \<rightharpoonup> content"
  log_entries :: "(level \<times> string) list"
  sent :: "(string \<times> string \<times> bool) list"
  process_success :: bool

definition logging_info :: "string \<Rightarrow> state \<Rightarrow> state" where
  "logging_info m s = s\<lparr>log_entries := log_entries s @ [(INFO, m)]\<rparr>"

definition logging_error :: "string \<Rightarrow> state \<Rightarrow> state" where
  "logging_error m s = s\<lparr>log_entries := log_entries s @ [(ERROR, m)]\<rparr>"

text \<open>\<open>os.remove\<close> on a path that succeeds: the path no longer exists.\<close>

definition os_remove :: "string \<Rightarrow> state \<Rightarrow> state" where
  "os_remove p s = s\<lparr>fs := (fs s)(p := None)\<rparr>"

subsection \<open>Notification (lines 47-63)\<close>

text \<open>
  Every exception inside \<open>send_email\<close> is caught there, so the function always returns.
  The assignment \<open>process_success = False\<close> of line 63 has no \<open>global\<close> declaration:
  it binds a local name of the function, and the module-level flag keeps its value.
\<close>

definition send_email :: "env \<Rightarrow> string \<Rightarrow> string \<Rightarrow> state \<Rightarrow> state" where
  "send_email env subject body s =
     (case smtp_err env (length (sent s)) of
        None \<Rightarrow>
          logging_info ''Notification email sent successfully.''
            (s\<lparr>sent := sent s @ [(subject, body, True)]\<rparr>)
      | Some email_error \<Rightarrow>
          logging_error (''Failed to send notification email: '' @ email_error)
            (s\<lparr>sent := sent s @ [(subject, body, False)]\<rparr>))"

subsection \<open>Retention deletion (lines 74-92)\<close>

text \<open>
  The loop over \<open>days_to_check\<close>. A day without a mapped name (or with an empty one),
  and a day whose file does not exist, fall through to the next day. A removal that
  raises is logged and reported, and \<open>exit(1)\<close> ends the loop. The assignment to
  \<open>process_success\<close> of line 87 is local to the function, as in \<open>send_email\<close>.
\<close>

fun delete_loop :: "config \<Rightarrow> env \<Rightarrow> string list \<Rightarrow> state \<Rightarrow> raised option \<times> state" where
  "delete_loop cfg env [] s = (None, s)"
| "delete_loop cfg env (day # days) s =
     (case FILES_MAP cfg day of
        None \<Rightarrow> delete_loop cfg env days s
      | Some next_file_name \<Rightarrow>
          if next_file_name = [] then delete_loop cfg env days s
          else
            let next_file_path = join (SOURCE_DIRECTORY cfg) next_file_name
            in if fs s next_file_path \<noteq> None then
                 (case remove_err env next_file_path of
                    None \<Rightarrow>
                      delete_loop cfg env days
                        (logging_info
                           (''Deleted backup file for '' @ day @ '': '' @ next_file_path)
                           (os_remove next_file_path s))
                  | Some delete_error \<Rightarrow>
                      (Some (SystemExit 1),
                       send_email env
                         (''Backup Deletion Failed for '' @ day)
                         (''Failed to delete backup file '' @ next_file_path @
                          ''. Error: '' @ delete_error)
                         (logging_error
                            (''Failed to delete '' @ next_file_path @ '': '' @ delete_error)
                            s)))
               else delete_loop cfg env days s)"

definition delete_next_backups ::
    "config \<Rightarrow> env \<Rightarrow> string \<Rightarrow> int \<Rightarrow> state \<Rightarrow> raised option \<times> state" where
  "delete_next_backups cfg env current_day days_to_delete s =
     (case get_next_days current_day days_to_delete of
        Inl e \<Rightarrow> (Some e, s)
      | Inr days_to_check \<Rightarrow> delete_loop cfg env days_to_check s)"

subsection \<open>Compression and transfer (lines 110-127)\<close>

definition file_path :: "config \<Rightarrow> string \<Rightarrow> string" where
  "file_path cfg file_name = join (SOURCE_DIRECTORY cfg) file_name"

definition zip_file_name :: "string \<Rightarrow> string" where
  "zip_file_name file_name = splitext_root file_name @ ''.zip''"

definition zip_file_path :: "config \<Rightarrow> string \<Rightarrow> string" where
  "zip_file_path cfg file_name = join (SOURCE_DIRECTORY cfg) (zip_file_name file_name)"

text \<open>
  \<open>zipfile.ZipFile(path, 'w')\<close> creates or truncates the archive when it is opened;
  \<open>zipf.write(file_path, arcname=file_name)\<close> then reads the source file and stores it as
  the one member, under the configured file name. Either call may raise; after a failed
  write the \<open>with\<close> statement has closed an archive without members.
\<close>

definition compress :: "env \<Rightarrow> string \<Rightarrow> string \<Rightarrow> string \<Rightarrow> state \<Rightarrow> raised option \<times> state" where
  "compress env zip_path src_path file_name s =
     (case zip_open_err env of
        Some e \<Rightarrow> (Some (Exception e), s)
      | None \<Rightarrow>
          let s1 = s\<lparr>fs := (fs s)(zip_path \<mapsto> Zip [])\<rparr>
          in (case zip_write_err env of
                Some e \<Rightarrow> (Some (Exception e), s1)
              | None \<Rightarrow>
                  (case fs s1 src_path of
                     None \<Rightarrow>
                       (Some (Exception (''[Errno 2] No such file or directory: '' @ src_path)), s1)
                   | Some c \<Rightarrow>
                       (None, s1\<lparr>fs := (fs s1)(zip_path \<mapsto> Zip [(file_name, c)])\<rparr>))))"

text \<open>
  \<open>shutil.copy(src, dst)\<close>: a directory as destination means the file of the same base
  name inside it. Copying a file onto itself raises (SameFileError); a failed copy is
  taken to leave the file system as it was.
\<close>

definition copy_dest :: "env \<Rightarrow> string \<Rightarrow> string \<Rightarrow> string" where
  "copy_dest env src dst = (if isdir env dst then join dst (basename src) else dst)"

definition shutil_copy :: "env \<Rightarrow> string \<Rightarrow> string \<Rightarrow> state \<Rightarrow> raised option \<times> state" where
  "shutil_copy env src dst s =
     (let target = copy_dest env src dst
      in if target = src then
           (Some (Exception (src @ '' and '' @ target @ '' are the same file'')), s)
         else
           (case fs s src of
              None \<Rightarrow> (Some (Exception (''[Errno 2] No such file or directory: '' @ src)), s)
            | Some c \<Rightarrow>
                (case copy_err env of
                   Some e \<Rightarrow> (Some (Exception e), s)
                 | None \<Rightarrow> (None, s\<lparr>fs := (fs s)(target \<mapsto> c)\<rparr>))))"

text \<open>Lines 118-127: the two steps before the retention deletion, with their log lines.\<close>

definition compress_and_transfer ::
    "config \<Rightarrow> env \<Rightarrow> string \<Rightarrow> string \<Rightarrow> state \<Rightarrow> raised option \<times> state" where
  "compress_and_transfer cfg env day_of_week file_name s =
     (let s1 = logging_info
                 (''Found file '' @ file_name @ '' for '' @ day_of_week @
                  ''. Starting compression.'') s
      in case compress env (zip_file_path cfg file_name) (file_path cfg file_name) file_name s1 of
           (Some e, s2) \<Rightarrow> (Some e, s2)
         | (None, s2) \<Rightarrow>
             let s3 = logging_info
                        (''File '' @ file_name @ '' compressed successfully into '' @
                         zip_file_name file_name @ ''.'') s2
             in (case shutil_copy env (zip_file_path cfg file_name) (FILE_SERVER_DIRECTORY cfg) s3 of
                   (Some e, s4) \<Rightarrow> (Some e, s4)
                 | (None, s4) \<Rightarrow>
                     (None,
                      logging_info
                        (''File '' @ zip_file_name file_name @ '' transferred to '' @
                         FILE_SERVER_DIRECTORY cfg @ ''.'') s4)))"

subsection \<open>The main workflow (lines 94-173)\<close>

text \<open>The suite of the \<open>try\<close> statement, lines 116-139.\<close>

definition main_try ::
    "config \<Rightarrow> env \<Rightarrow> string \<Rightarrow> string \<Rightarrow> state \<Rightarrow> raised option \<times> state" where
  "main_try cfg env day_of_week file_name s =
     (if fs s (file_path cfg file_name) \<noteq> None then
        (case compress_and_transfer cfg env day_of_week file_name s of
           (Some e, s') \<Rightarrow> (Some e, s')
         | (None, s') \<Rightarrow> delete_next_backups cfg env day_of_week (DAYS_TO_DELETE cfg) s')
      else
        let error_msg = ''File '' @ file_name @ '' not found for '' @ day_of_week @ '' in '' @
                        SOURCE_DIRECTORY cfg @ ''. Process aborted.''
        in (Some (SystemExit 1),
            send_email env (''Backup Process Failed for '' @ day_of_week) error_msg
              ((logging_error error_msg s)\<lparr>process_success := False\<rparr>)))"

text \<open>
  The handler \<open>except Exception\<close>, lines 141-150: it takes an \<open>Exception\<close> raised by the
  suite, and lets a \<open>SystemExit\<close> pass.
\<close>

definition main_except :: "env \<Rightarrow> string \<Rightarrow> raised option \<times> state \<Rightarrow> raised option \<times> state" where
  "main_except env day_of_week rs =
     (case rs of
        (Some (Exception e), s) \<Rightarrow>
          let error_msg = ''An error occurred during the process: '' @ e
          in (Some (SystemExit 1),
              send_email env (''Backup Process Failed for '' @ day_of_week)
                (error_msg @ [CHR 0x0A, CHR 0x0A] @ format_exc env e)
                ((logging_error (format_exc env e) (logging_error error_msg s))
                   \<lparr>process_success := False\<rparr>))
      | _ \<Rightarrow> rs)"

text \<open>
  The \<open>finally\<close> block, lines 152-173. It runs whatever the suite and the handler did;
  an \<open>exit(1)\<close> inside it replaces the pending exception, otherwise the pending
  exception is raised again when the block ends.
\<close>

definition main_finally ::
    "config \<Rightarrow> env \<Rightarrow> string \<Rightarrow> string \<Rightarrow> raised option \<times> state \<Rightarrow> raised option \<times> state" where
  "main_finally cfg env day_of_week file_name rs =
     (case rs of (pending, s) \<Rightarrow>
        (case (if fs s (zip_file_path cfg file_name) \<noteq> None then
                 (case remove_err env (zip_file_path cfg file_name) of
                    None \<Rightarrow>
                      (None,
                       logging_info ''Temporary zip file removed successfully.''
                         (os_remove (zip_file_path cfg file_name) s))
                  | Some cleanup_error \<Rightarrow>
                      let cleanup_msg = ''Error during cleanup: '' @ cleanup_error
                      in (Some (SystemExit 1),
                          send_email env (''Backup Cleanup Error for '' @ day_of_week) cleanup_msg
                            ((logging_error cleanup_msg s)\<lparr>process_success := False\<rparr>)))
               else (None, s)) of
           (Some e, s') \<Rightarrow> (Some e, s')
         | (None, s') \<Rightarrow>
             (pending,
              if process_success s' then
                send_email env (''Backup Process Successful for '' @ day_of_week)
                  (''The backup file '' @ [CHR 0x27] @ file_name @ [CHR 0x27] @
                   '' was successfully compressed, transferred, and old backups deleted.'') s'
              else s')))"

text \<open>
  The state when line 99 is reached: the logger is set up, the start of the run is
  logged, nothing has been sent and the flag is \<open>True\<close>.
\<close>

definition startup :: "string \<Rightarrow> (string \<rightharpoonup> content) \<Rightarrow> state" where
  "startup day_of_week files =
     \<lparr>fs = files,
      log_entries = [(INFO, ''Logger initialized''),
                     (INFO, ''Script started for '' @ day_of_week @ '' backup process.'')],
      sent = [],
      process_success = True\<rparr>"

text \<open>
  The exit status: 0 when the module runs to its end, the argument of \<open>exit\<close> otherwise
  (an exception that nothing catches ends the interpreter with status 1).
\<close>

definition exit_code :: "raised option \<Rightarrow> int" where
  "exit_code r = (case r of None \<Rightarrow> 0 | Some (SystemExit n) \<Rightarrow> n | Some (Exception e) \<Rightarrow> 1)"

text \<open>
  The whole run, as a function of the configuration, the environment, today's weekday
  name and the files present at the start. \<open>if not file_name\<close> holds for a missing
  entry and for an empty name.
\<close>

definition main :: "config \<Rightarrow> env \<Rightarrow> string \<Rightarrow> (string \<rightharpoonup> content) \<Rightarrow> int \<times> state" where
  "main cfg env day_of_week files =
     (let s = startup day_of_week files
      in case FILES_MAP cfg day_of_week of
           None \<Rightarrow>
             (1, send_email env (''Backup Process Failed for '' @ day_of_week)
                   (''No file configured for '' @ day_of_week @ ''. Please check the config file.'')
                   ((logging_error
                       (''No file configured for '' @ day_of_week @ ''. Check the config file.'') s)
                      \<lparr>process_success := False\<rparr>))
         | Some file_name \<Rightarrow>
             if file_name = [] then
               (1, send_email env (''Backup Process Failed for '' @ day_of_week)
                     (''No file configured for '' @ day_of_week @ ''. Please check the config file.'')
                     ((logging_error
                         (''No file configured for '' @ day_of_week @ ''. Check the config file.'') s)
                        \<lparr>process_success := False\<rparr>))
             else
               (case main_finally cfg env day_of_week file_name
                       (main_except env day_of_week (main_try cfg env day_of_week file_name s)) of
                  (r, s') \<Rightarrow> (exit_code r, s')))"

subsection \<open>Observations used in the statements\<close>

text \<open>
  What a run shows apart from its log and from whether each message was delivered: the
  files, the notifications handed to \<open>send_email\<close> (subject and body), and the flag.
\<close>

definition visible :: "state \<Rightarrow> (string \<rightharpoonup> content) \<times> (string \<times> string) list \<times> bool" where
  "visible s = (fs s, map (\<lambda>(subject, body, delivered). (subject, body)) (sent s), process_success s)"

text \<open>
  The paths that the retention loop looks at for a list of days: the mapped, non-empty
  names, joined to the source directory.
\<close>

definition window_paths :: "config \<Rightarrow> string list \<Rightarrow> string list" where
  "window_paths cfg days =
     concat (map (\<lambda>day. case FILES_MAP cfg day of
                           None \<Rightarrow> []
                         | Some n \<Rightarrow> if n = [] then [] else [join (SOURCE_DIRECTORY cfg) n]) days)"

subsection \<open>A sample installation\<close>

text \<open>
  A configuration with one file per weekday and a retention window of three days, an
  environment in which nothing fails, and a source directory holding four of the files.
\<close>

definition sample_config :: config where
  "sample_config =
     \<lparr>SOURCE_DIRECTORY = ''/data'',
      FILE_SERVER_DIRECTORY = ''/srv'',
      FILES_MAP = map_of
        [(''Sunday'', ''sun.bak''), (''Monday'', ''mon.bak''), (''Tuesday'', ''tue.bak''),
         (''Wednesday'', ''wed.bak''), (''Thursday'', ''thu.bak''), (''Friday'', ''fri.bak''),
         (''Saturday'', ''sat.bak'')],
      DAYS_TO_DELETE = 3\<rparr>"

definition sample_env :: env where
  "sample_env =
     \<lparr>isdir = (\<lambda>p. p = ''/srv'' \<or> p = ''/data''),
      zip_open_err = None,
      zip_write_err = None,
      copy_err = None,
      remove_err = (\<lambda>p. None),
      smtp_err = (\<lambda>k. None),
      format_exc = (\<lambda>e. ''Traceback (most recent call last): '' @ e)\<rparr>"

definition sample_files :: "string \<rightharpoonup> content" where
  "sample_files =
     map_of [(''/data/sun.bak'', Raw [1]), (''/data/mon.bak'', Raw [2]),
             (''/data/wed.bak'', Raw [3]), (''/data/fri.bak'', Raw [4])]"

text \<open>
  The same installation, except that Thursday is configured with the file name that
  Monday also has.
\<close>

definition shared_name_config :: config where
  "shared_name_config =
     sample_config\<lparr>FILES_MAP := map_of
        [(''Sunday'', ''sun.bak''), (''Monday'', ''mon.bak''), (''Tuesday'', ''tue.bak''),
         (''Wednesday'', ''wed.bak''), (''Thursday'', ''mon.bak''), (''Friday'', ''fri.bak''),
         (''Saturday'', ''sat.bak'')]\<rparr>"

subsection \<open>Weekday arithmetic: properties\<close>

lemma index_of_None_iff: "index_of ys x = None \<longleftrightarrow> x \<notin> set ys"
  by (induction ys) auto

lemma index_of_Some_nth: "index_of ys x = Some k \<Longrightarrow> k < length ys \<and> ys ! k = x"
  by (induction ys arbitrary: k) (auto split: if_splits)

lemma days_of_week_cases:
  "W \<in> set days_of_week \<Longrightarrow>
     W = ''Sunday'' \<or> W = ''Monday'' \<or> W = ''Tuesday'' \<or> W = ''Wednesday'' \<or>
     W = ''Thursday'' \<or> W = ''Friday'' \<or> W = ''Saturday''"
  by (simp add: days_of_week_def)

lemma count_cases:
  "1 \<le> (D::int) \<Longrightarrow> D \<le> 7 \<Longrightarrow> D = 1 \<or> D = 2 \<or> D = 3 \<or> D = 4 \<or> D = 5 \<or> D = 6 \<or> D = 7"
  by arith

lemma distinct_days: "distinct days_of_week" "length days_of_week = 7"
  by (simp_all add: days_of_week_def)

lemma get_next_days_Inr:
  "index_of days_of_week W = Some s \<Longrightarrow>
   get_next_days W D = Inr (map (\<lambda>i. days_of_week ! nat ((int s + i) mod 7)) [1..D])"
  by (simp add: get_next_days_def)

lemma nth_next:
  assumes "k < nat D"
  shows "map (\<lambda>i. days_of_week ! nat ((int s + i) mod 7)) [1..D] ! k = days_of_week ! ((s + k + 1) mod 7)"
proof -
  have "[1..D] ! k = 1 + int k" using assms by (simp add: nth_upto)
  moreover have "nat ((int s + (1 + int k)) mod 7) = (s + k + 1) mod 7"
  proof -
    have "int s + (1 + int k) = int (s + k + 1)" by simp
    moreover have "int (s + k + 1) mod 7 = int ((s + k + 1) mod 7)" by (simp add: zmod_int)
    ultimately show ?thesis by (simp only: nat_int)
  qed
  ultimately show ?thesis using assms by simp
qed

subsection \<open>Claims about the weekday arithmetic\<close>

text \<open>
  Claim C1. For a weekday name \<open>W\<close> of the canonical list and a count \<open>D\<close> with
  \<open>1 \<le> D \<le> 7\<close>, \<open>get_next_days W D\<close> returns a list of exactly \<open>D\<close> names; its \<open>k\<close>-th
  name is the canonical name \<open>k + 1\<close> places after \<open>W\<close>, counted modulo 7; \<open>W\<close> itself
  is not among them unless \<open>D = 7\<close>; and \<open>get_next_days ''Saturday'' 2\<close> is Sunday, Monday.
\<close>

theorem get_next_days_spec:
  assumes "W \<in> set days_of_week" and "1 \<le> D" and "D \<le> 7"
  shows "\<exists>s xs. index_of days_of_week W = Some s \<and> get_next_days W D = Inr xs \<and>
           int (length xs) = D \<and>
           (\<forall>k<length xs. xs ! k = days_of_week ! ((s + k + 1) mod 7)) \<and>
           (D \<noteq> 7 \<longrightarrow> W \<notin> set xs) \<and>
           get_next_days ''Saturday'' 2 = Inr [''Sunday'', ''Monday'']"
proof -
  from assms(1) obtain s where s: "index_of days_of_week W = Some s"
    using index_of_None_iff[of days_of_week W] by (cases "index_of days_of_week W") auto
  then have s7: "s < 7" and Ws: "days_of_week ! s = W"
    using index_of_Some_nth[OF s] by (simp_all add: distinct_days)
  let ?xs = "map (\<lambda>i. days_of_week ! nat ((int s + i) mod 7)) [1..D]"
  have len: "length ?xs = nat D" using assms by simp
  have nth: "\<forall>k<length ?xs. ?xs ! k = days_of_week ! ((s + k + 1) mod 7)"
    using nth_next len by simp
  have notin: "D \<noteq> 7 \<longrightarrow> W \<notin> set ?xs"
  proof (intro impI notI)
    assume D7: "D \<noteq> 7" and "W \<in> set ?xs"
    then obtain k where k: "k < length ?xs" "?xs ! k = W" by (metis in_set_conv_nth)
    then have "days_of_week ! ((s + k + 1) mod 7) = days_of_week ! s" using nth Ws by simp
    then have "(s + k + 1) mod 7 = s"
      using distinct_days s7 by (simp add: nth_eq_iff_index_eq)
    moreover have "k < 6" using k(1) len D7 assms by simp
    ultimately show False using s7 by (simp add: mod_if split: if_splits)
  qed
  have ex: "get_next_days ''Saturday'' 2 = Inr [''Sunday'', ''Monday'']"
    by code_simp
  have len': "int (length ?xs) = D" using len assms by simp
  show ?thesis
    by (intro exI[of _ s] exI[of _ ?xs] conjI)
       (rule s get_next_days_Inr[OF s] len' nth notin ex)+
qed

theorem get_next_days_spec_witness:
  "''Friday'' \<in> set days_of_week \<and> get_next_days ''Friday'' 3 = Inr [''Saturday'', ''Sunday'', ''Monday'']"
proof -
  have "''Friday'' \<in> set days_of_week" by (simp add: days_of_week_def)
  moreover have "get_next_days ''Friday'' 3 = Inr [''Saturday'', ''Sunday'', ''Monday'']" by code_simp
  ultimately show ?thesis using get_next_days_spec[of "''Friday''" 3] by simp
qed

text \<open>
  Claim C9. \<open>get_next_days\<close> returns a list only for a canonical weekday name: for any
  other name the index lookup raises, whatever the count is, and for a canonical name a
  list is returned.
\<close>

theorem get_next_days_defined_iff:
  "(day_name \<notin> set days_of_week \<longrightarrow> (\<exists>m. get_next_days day_name days_ahead = Inl (Exception m))) \<and>
   (day_name \<in> set days_of_week \<longrightarrow> (\<exists>xs. get_next_days day_name days_ahead = Inr xs))"
  using index_of_None_iff[of days_of_week day_name]
  by (cases "index_of days_of_week day_name") (auto simp: get_next_days_def)

theorem get_next_days_defined_iff_witness:
  "(\<exists>m. get_next_days ''Montag'' 3 = Inl (Exception m)) \<and>
   (\<exists>xs. get_next_days ''Monday'' (- 2) = Inr xs)"
proof -
  have "''Montag'' \<notin> set days_of_week" and "''Monday'' \<in> set days_of_week"
    by (simp_all add: days_of_week_def)
  then show ?thesis
    using get_next_days_defined_iff[of "''Montag''" 3]
      get_next_days_defined_iff[of "''Monday''" "- 2"]
    by simp
qed

subsection \<open>State fields after the elementary steps\<close>

lemma logging_info_fields [simp]:
  "fs (logging_info m s) = fs s" "sent (logging_info m s) = sent s"
  "process_success (logging_info m s) = process_success s"
  "log_entries (logging_info m s) = log_entries s @ [(INFO, m)]"
  by (simp_all add: logging_info_def)

lemma logging_error_fields [simp]:
  "fs (logging_error m s) = fs s" "sent (logging_error m s) = sent s"
  "process_success (logging_error m s) = process_success s"
  "log_entries (logging_error m s) = log_entries s @ [(ERROR, m)]"
  by (simp_all add: logging_error_def)

lemma os_remove_fields [simp]:
  "fs (os_remove p s) = (fs s)(p := None)" "sent (os_remove p s) = sent s"
  "process_success (os_remove p s) = process_success s"
  "log_entries (os_remove p s) = log_entries s"
  by (simp_all add: os_remove_def)

lemma send_email_fields [simp]:
  "fs (send_email env subject body s) = fs s"
  "process_success (send_email env subject body s) = process_success s"
  "sent (send_email env subject body s) =
     sent s @ [(subject, body, smtp_err env (length (sent s)) = None)]"
  by (simp_all add: send_email_def split: option.splits)

subsection \<open>Claims about skipped days and the missing mapping\<close>

text \<open>
  Claim C10. In the retention loop, a day without a mapped file name (no entry, or an
  empty name), or whose mapped file does not exist in the source directory, is skipped
  silently: processing that day alone raises nothing and returns the state unchanged (no
  log line, no notification, the flag as it was), and the loop goes on with the remaining
  days exactly as if the day were not in the list.
\<close>

theorem delete_loop_skip:
  assumes "FILES_MAP cfg day = None \<or> FILES_MAP cfg day = Some [] \<or>
           (\<exists>n. FILES_MAP cfg day = Some n \<and> fs s (join (SOURCE_DIRECTORY cfg) n) = None)"
  shows "delete_loop cfg env [day] s = (None, s) \<and>
         delete_loop cfg env (day # days) s = delete_loop cfg env days s"
  using assms by (auto simp: Let_def)

theorem delete_loop_skip_witness:
  "delete_loop sample_config sample_env [''Tuesday'', ''Wednesday''] (startup ''Sunday'' sample_files) =
   delete_loop sample_config sample_env [''Wednesday''] (startup ''Sunday'' sample_files)"
proof -
  have "FILES_MAP sample_config ''Tuesday'' = Some ''tue.bak''"
    by (simp add: sample_config_def)
  moreover have "fs (startup ''Sunday'' sample_files) (join (SOURCE_DIRECTORY sample_config) ''tue.bak'') = None"
    by (simp add: sample_config_def startup_def sample_files_def join_def)
  ultimately show ?thesis
    using delete_loop_skip[where cfg = sample_config and day = "''Tuesday''"
        and s = "startup ''Sunday'' sample_files" and env = sample_env and days = "[''Wednesday'']"]
    by simp
qed

text \<open>
  Claim C7. When the weekday mapping has no entry for today's weekday, the run ends with
  exit code 1 and exactly one call of the notification, whose subject and body name
  today's weekday.
\<close>

theorem missing_mapping_fatal:
  assumes "FILES_MAP cfg day_of_week = None"
  shows "fst (main cfg env day_of_week files) = 1 \<and>
         (\<exists>delivered. sent (snd (main cfg env day_of_week files)) =
            [(''Backup Process Failed for '' @ day_of_week,
              ''No file configured for '' @ day_of_week @ ''. Please check the config file.'',
              delivered)])"
  using assms by (simp add: main_def startup_def)


theorem missing_mapping_fatal_witness:
  "fst (main (sample_config\<lparr>FILES_MAP := map_of [(''Monday'', ''mon.bak'')]\<rparr>) sample_env
          ''Sunday'' sample_files) = 1 \<and>
   (\<exists>delivered.
      sent (snd (main (sample_config\<lparr>FILES_MAP := map_of [(''Monday'', ''mon.bak'')]\<rparr>) sample_env
                   ''Sunday'' sample_files)) =
        [(''Backup Process Failed for Sunday'',
          ''No file configured for Sunday. Please check the config file.'', delivered)])"
proof -
  have "FILES_MAP (sample_config\<lparr>FILES_MAP := map_of [(''Monday'', ''mon.bak'')]\<rparr>) ''Sunday'' = None"
    by simp
  from missing_mapping_fatal[OF this, of sample_env sample_files] show ?thesis by simp
qed

subsection \<open>Runs that differ only in the outcome of the email sends\<close>

text \<open>
  Each step of the workflow is followed through two environments that agree on everything
  but \<open>smtp_err\<close>: it raises the same and leaves the same visible state.
\<close>

lemma visible_eq_iff:
  "visible s = visible t \<longleftrightarrow>
     fs s = fs t \<and> map (\<lambda>(subject, body, delivered). (subject, body)) (sent s) =
       map (\<lambda>(subject, body, delivered). (subject, body)) (sent t) \<and>
     process_success s = process_success t"
  by (simp add: visible_def)

lemma visible_logging [simp]:
  "visible (logging_info m s) = visible s" "visible (logging_error m s) = visible s"
  by (simp_all add: visible_def)


lemma visible_flag:
  "visible s = visible t \<Longrightarrow>
   visible (s\<lparr>process_success := b\<rparr>) = visible (t\<lparr>process_success := b\<rparr>)"
  by (simp add: visible_eq_iff)

lemma visible_fs_upd:
  "visible s = visible t \<Longrightarrow> visible (s\<lparr>fs := F (fs s)\<rparr>) = visible (t\<lparr>fs := F (fs t)\<rparr>)"
  by (simp add: visible_eq_iff)













lemma main_workflow:
  "FILES_MAP cfg d = Some n \<Longrightarrow> n \<noteq> [] \<Longrightarrow>
   main cfg env d files =
     (exit_code (fst (main_finally cfg env d n
                        (main_except env d (main_try cfg env d n (startup d files))))),
      snd (main_finally cfg env d n
             (main_except env d (main_try cfg env d n (startup d files)))))"
  by (simp add: main_def case_prod_beta Let_def)




subsection \<open>The cleanup block\<close>

lemma main_finally_absent:
  "fs s (zip_file_path cfg n) = None \<Longrightarrow>
   fs (snd (main_finally cfg env d n (r, s))) (zip_file_path cfg n) = None \<and>
   fst (main_finally cfg env d n (r, s)) = r"
  by (simp add: main_finally_def)

lemma send_email_log_mono:
  "x \<in> set (log_entries s) \<Longrightarrow> x \<in> set (log_entries (send_email env subject body s))"
  by (simp add: send_email_def split: option.splits)

lemma main_finally_removed:
  "fs s (zip_file_path cfg n) \<noteq> None \<Longrightarrow> remove_err env (zip_file_path cfg n) = None \<Longrightarrow>
   fs (snd (main_finally cfg env d n (r, s))) (zip_file_path cfg n) = None \<and>
   fst (main_finally cfg env d n (r, s)) = r \<and>
   (INFO, ''Temporary zip file removed successfully.'') \<in>
     set (log_entries (snd (main_finally cfg env d n (r, s))))"
  by (auto simp: main_finally_def intro: send_email_log_mono)

lemma main_finally_failed:
  "fs s (zip_file_path cfg n) \<noteq> None \<Longrightarrow> remove_err env (zip_file_path cfg n) = Some e \<Longrightarrow>
   main_finally cfg env d n (r, s) =
     (Some (SystemExit 1),
      send_email env (''Backup Cleanup Error for '' @ d) (''Error during cleanup: '' @ e)
        ((logging_error (''Error during cleanup: '' @ e) s)\<lparr>process_success := False\<rparr>))"
  by (auto simp: main_finally_def Let_def)

text \<open>
  Claim C8. Once control has entered the workflow (a file name is mapped to today), the
  cleanup block runs after the suite and its handler, whatever they did and whatever they
  raised: if the temporary archive does not exist there is nothing to remove and it does
  not exist afterwards; if it exists and its removal succeeds, it is gone and the removal
  is logged; if it exists and its removal raises, the run exits with code 1, the archive
  is still there, and the last notification is the cleanup report carrying the error.
\<close>

theorem cleanup_on_every_path:
  assumes "FILES_MAP cfg d = Some n" and "n \<noteq> []"
  shows "(fs (snd (main_except env d (main_try cfg env d n (startup d files)))) (zip_file_path cfg n) = None
            \<longrightarrow> fs (snd (main cfg env d files)) (zip_file_path cfg n) = None) \<and>
         (fs (snd (main_except env d (main_try cfg env d n (startup d files)))) (zip_file_path cfg n) \<noteq> None \<and>
          remove_err env (zip_file_path cfg n) = None
            \<longrightarrow> fs (snd (main cfg env d files)) (zip_file_path cfg n) = None \<and>
                (INFO, ''Temporary zip file removed successfully.'') \<in>
                  set (log_entries (snd (main cfg env d files)))) \<and>
         (\<forall>e. fs (snd (main_except env d (main_try cfg env d n (startup d files)))) (zip_file_path cfg n) \<noteq> None \<and>
              remove_err env (zip_file_path cfg n) = Some e
            \<longrightarrow> fst (main cfg env d files) = 1 \<and>
                fs (snd (main cfg env d files)) (zip_file_path cfg n) \<noteq> None \<and>
                (\<exists>delivered. last (sent (snd (main cfg env d files))) =
                   (''Backup Cleanup Error for '' @ d, ''Error during cleanup: '' @ e, delivered)))"
proof -
  obtain r s where W: "main_except env d (main_try cfg env d n (startup d files)) = (r, s)"
    by fastforce
  have m: "main cfg env d files =
      (exit_code (fst (main_finally cfg env d n (r, s))), snd (main_finally cfg env d n (r, s)))"
    using main_workflow[OF assms, of env files] W by simp
  show ?thesis
    unfolding m W
    using main_finally_absent[of s cfg n env d r] main_finally_removed[of s cfg n env d r]
      main_finally_failed[of s cfg n env _ d r]
    by (auto simp: exit_code_def)
qed


theorem cleanup_on_every_path_witness:
  "fst (main sample_config
          (sample_env\<lparr>remove_err := \<lambda>p. if p = ''/data/sun.zip'' then Some ''Permission denied'' else None\<rparr>)
          ''Sunday'' sample_files) = 1 \<and>
   (\<exists>delivered.
      last (sent (snd (main sample_config
          (sample_env\<lparr>remove_err := \<lambda>p. if p = ''/data/sun.zip'' then Some ''Permission denied'' else None\<rparr>)
          ''Sunday'' sample_files))) =
      (''Backup Cleanup Error for Sunday'', ''Error during cleanup: Permission denied'', delivered))"
proof -
  let ?E = "sample_env\<lparr>remove_err := \<lambda>p. if p = ''/data/sun.zip'' then Some ''Permission denied'' else None\<rparr>"
  have h1: "FILES_MAP sample_config ''Sunday'' = Some ''sun.bak''"
    by (simp add: sample_config_def)
  have h2: "''sun.bak'' \<noteq> []" by simp
  have h3: "fs (snd (main_except ?E ''Sunday''
                 (main_try sample_config ?E ''Sunday'' ''sun.bak'' (startup ''Sunday'' sample_files))))
              (zip_file_path sample_config ''sun.bak'') \<noteq> None"
    by code_simp
  have h4: "remove_err ?E (zip_file_path sample_config ''sun.bak'') = Some ''Permission denied''"
    by code_simp
  from cleanup_on_every_path[OF h1 h2, where env = ?E and files = sample_files] h3 h4
  show ?thesis by simp
qed

subsection \<open>The retention loop: what it removes and what it leaves\<close>

lemma window_paths_Cons:
  "window_paths cfg (day # days) =
     (case FILES_MAP cfg day of None \<Rightarrow> []
      | Some n \<Rightarrow> if n = [] then [] else [join (SOURCE_DIRECTORY cfg) n]) @ window_paths cfg days"
  and window_paths_Nil: "window_paths cfg [] = []"
  and window_paths_append: "window_paths cfg (xs @ ys) = window_paths cfg xs @ window_paths cfg ys"
  by (simp_all add: window_paths_def)

lemma delete_loop_result:
  "fst (delete_loop cfg env days s) = None \<or> fst (delete_loop cfg env days s) = Some (SystemExit 1)"
  by (induction days arbitrary: s) (auto simp: Let_def split: option.splits)

lemma delete_loop_never_creates:
  "fs s p = None \<Longrightarrow> fs (snd (delete_loop cfg env days s)) p = None"
  by (induction days arbitrary: s) (auto simp: Let_def split: option.splits)

lemma delete_loop_frame:
  "p \<notin> set (window_paths cfg days) \<Longrightarrow> fs (snd (delete_loop cfg env days s)) p = fs s p"
  by (induction days arbitrary: s)
     (auto simp: Let_def window_paths_Cons window_paths_Nil split: option.splits)

lemma delete_loop_removed:
  "fst (delete_loop cfg env days s) = None \<Longrightarrow> p \<in> set (window_paths cfg days) \<Longrightarrow>
   fs (snd (delete_loop cfg env days s)) p = None"
proof (induction days arbitrary: s)
  case Nil
  then show ?case by (simp add: window_paths_Nil)
next
  case (Cons day days)
  show ?case
  proof (cases "FILES_MAP cfg day")
    case None
    then show ?thesis using Cons by (simp add: window_paths_Cons)
  next
    case (Some n)
    show ?thesis
    proof (cases "n = []")
      case True
      then show ?thesis using Some Cons by (simp add: window_paths_Cons)
    next
      case False
      let ?q = "join (SOURCE_DIRECTORY cfg) n"
      show ?thesis
      proof (cases "fs s ?q = None")
        case True
        then show ?thesis
          using Some False Cons delete_loop_never_creates[of s ?q cfg env days]
          by (auto simp: window_paths_Cons Let_def)
      next
        case exists: False
        then obtain nothing where r: "remove_err env ?q = None"
          using Cons.prems(1) Some False by (cases "remove_err env ?q") (auto simp: Let_def)
        let ?s' = "logging_info (''Deleted backup file for '' @ day @ '': '' @ ?q) (os_remove ?q s)"
        have step: "delete_loop cfg env (day # days) s = delete_loop cfg env days ?s'"
          using Some False exists r by (simp add: Let_def)
        have "fs ?s' ?q = None" by simp
        from delete_loop_never_creates[OF this, of cfg env days]
        show ?thesis
          using Cons.IH[of ?s'] Cons.prems Some False step
          by (auto simp: window_paths_Cons)
      qed
    qed
  qed
qed

lemma delete_loop_flag:
  "process_success (snd (delete_loop cfg env days s)) = process_success s"
  by (induction days arbitrary: s) (auto simp: Let_def split: option.splits)

lemma delete_loop_sent_ok:
  "fst (delete_loop cfg env days s) = None \<Longrightarrow> sent (snd (delete_loop cfg env days s)) = sent s"
  by (induction days arbitrary: s) (auto simp: Let_def split: option.splits)

lemma delete_loop_append:
  "delete_loop cfg env pre s = (None, s') \<Longrightarrow>
   delete_loop cfg env (pre @ rest) s = delete_loop cfg env rest s'"
  by (induction pre arbitrary: s) (auto simp: Let_def split: option.splits if_splits)


lemma main_finally_exit:
  "fst (main_finally cfg env d n (Some (SystemExit 1), s)) = Some (SystemExit 1)"
  by (auto simp: main_finally_def Let_def split: option.splits)

lemma main_finally_frame:
  "p \<noteq> zip_file_path cfg n \<Longrightarrow> fs (snd (main_finally cfg env d n (r, s))) p = fs s p"
  by (auto simp: main_finally_def Let_def split: option.splits)

lemma main_finally_sent_mono:
  "x \<in> set (sent s) \<Longrightarrow> x \<in> set (sent (snd (main_finally cfg env d n (r, s))))"
  by (auto simp: main_finally_def Let_def split: option.splits)

lemma main_except_SystemExit:
  "main_except env d (Some (SystemExit k), s) = (Some (SystemExit k), s)"
  and main_except_None: "main_except env d (None, s) = (None, s)"
  by (simp_all add: main_except_def)

lemma delete_loop_fail:
  assumes "delete_loop cfg env pre s = (None, s')"
    and "FILES_MAP cfg day = Some n" and "n \<noteq> []"
    and "fs s' (join (SOURCE_DIRECTORY cfg) n) \<noteq> None"
    and "remove_err env (join (SOURCE_DIRECTORY cfg) n) = Some e"
  shows "delete_loop cfg env (pre @ day # post) s =
           (Some (SystemExit 1),
            send_email env (''Backup Deletion Failed for '' @ day)
              (''Failed to delete backup file '' @ join (SOURCE_DIRECTORY cfg) n @ ''. Error: '' @ e)
              (logging_error (''Failed to delete '' @ join (SOURCE_DIRECTORY cfg) n @ '': '' @ e) s'))"
  using delete_loop_append[OF assms(1), of "day # post"] assms(2-5)
  by (auto simp: Let_def)

text \<open>
  What the suite and the run do when a removal in the retention loop raises. Suppose
  compression and transfer succeeded, the days of the window before \<open>day\<close> were processed
  without error, and removing the existing file mapped to \<open>day\<close> raises. Then the suite
  ends there with \<open>exit(1)\<close>, in the state reached before \<open>day\<close> plus the error log
  line and the notification naming the day, the path and the error; the run exits with
  code 1, and apart from the temporary archive every file is as it was when the removal
  failed. The cleanup block still runs after the suite.
\<close>

lemma deletion_failure_suite:
  assumes "FILES_MAP cfg today = Some file_name" and "file_name \<noteq> []"
    and "files (file_path cfg file_name) \<noteq> None"
    and "compress_and_transfer cfg env today file_name (startup today files) = (None, s)"
    and "get_next_days today (DAYS_TO_DELETE cfg) = Inr (pre @ day # post)"
    and "delete_loop cfg env pre s = (None, s')"
    and "FILES_MAP cfg day = Some n" and "n \<noteq> []"
    and "fs s' (join (SOURCE_DIRECTORY cfg) n) \<noteq> None"
    and "remove_err env (join (SOURCE_DIRECTORY cfg) n) = Some e"
  shows "main_try cfg env today file_name (startup today files) =
           (Some (SystemExit 1),
            send_email env (''Backup Deletion Failed for '' @ day)
              (''Failed to delete backup file '' @ join (SOURCE_DIRECTORY cfg) n @ ''. Error: '' @ e)
              (logging_error (''Failed to delete '' @ join (SOURCE_DIRECTORY cfg) n @ '': '' @ e) s')) \<and>
         fst (main cfg env today files) = 1 \<and>
         (\<exists>delivered.
            (''Backup Deletion Failed for '' @ day,
             ''Failed to delete backup file '' @ join (SOURCE_DIRECTORY cfg) n @ ''. Error: '' @ e,
             delivered) \<in> set (sent (snd (main cfg env today files)))) \<and>
         (\<forall>p. p \<noteq> zip_file_path cfg file_name \<longrightarrow>
              fs (snd (main cfg env today files)) p = fs s' p)"
proof -
  let ?X = "send_email env (''Backup Deletion Failed for '' @ day)
              (''Failed to delete backup file '' @ join (SOURCE_DIRECTORY cfg) n @ ''. Error: '' @ e)
              (logging_error (''Failed to delete '' @ join (SOURCE_DIRECTORY cfg) n @ '': '' @ e) s')"
  have loop: "delete_loop cfg env (pre @ day # post) s = (Some (SystemExit 1), ?X)"
    using delete_loop_fail[OF assms(6-10)] .
  have suite: "main_try cfg env today file_name (startup today files) = (Some (SystemExit 1), ?X)"
    using assms(3,4,5) loop
    by (simp add: main_try_def delete_next_backups_def startup_def)
  let ?R = "main_finally cfg env today file_name (Some (SystemExit 1), ?X)"
  have m: "main cfg env today files = (exit_code (fst ?R), snd ?R)"
    using main_workflow[OF assms(1,2), where env = env and files = files] suite by (simp add: main_except_SystemExit)
  have code: "fst (main cfg env today files) = 1"
    using m main_finally_exit[where cfg = cfg and env = env and d = today and n = file_name and s = ?X] by (simp add: exit_code_def)
  have msg: "(''Backup Deletion Failed for '' @ day,
             ''Failed to delete backup file '' @ join (SOURCE_DIRECTORY cfg) n @ ''. Error: '' @ e,
             smtp_err env (length (sent s')) = None) \<in> set (sent (snd (main cfg env today files)))"
    unfolding m snd_conv by (rule main_finally_sent_mono) simp
  have frame: "fs (snd (main cfg env today files)) p = fs s' p" if "p \<noteq> zip_file_path cfg file_name" for p
    unfolding m snd_conv using main_finally_frame[OF that, where env = env and d = today and r = "Some (SystemExit 1)" and s = ?X]
    by simp
  from suite code msg frame show ?thesis by blast
qed

text \<open>
  Claim C5. The claim is that a removal that raises in the retention loop stops the run
  at once: the later days of the window are not processed, a failure notification with
  the specifics is sent, and the process exits with code 1. The run below is the sample
  installation on a Friday, where removing Sunday's file raises. The window is Saturday,
  Sunday, Monday: Saturday has no file, Sunday's removal fails, Monday's file is not
  touched, and the exit code is 1. But the run does not end with the failure: line 87
  assigns a name local to \<open>delete_next_backups\<close>, the module-level flag is still \<open>True\<close>
  when the cleanup block tests it at line 169, and the last message of the run is the
  success notification.
\<close>

theorem deletion_failure_reports_success:
  "fst (main sample_config
          (sample_env\<lparr>remove_err := \<lambda>p. if p = ''/data/sun.bak'' then Some ''Permission denied'' else None\<rparr>)
          ''Friday'' sample_files) = 1 \<and>
   sent (snd (main sample_config
          (sample_env\<lparr>remove_err := \<lambda>p. if p = ''/data/sun.bak'' then Some ''Permission denied'' else None\<rparr>)
          ''Friday'' sample_files)) =
     [(''Backup Deletion Failed for Sunday'',
       ''Failed to delete backup file /data/sun.bak. Error: Permission denied'', True),
      (''Backup Process Successful for Friday'',
       ''The backup file '' @ [CHR 0x27] @ ''fri.bak'' @ [CHR 0x27] @
       '' was successfully compressed, transferred, and old backups deleted.'', True)] \<and>
   process_success (snd (main sample_config
          (sample_env\<lparr>remove_err := \<lambda>p. if p = ''/data/sun.bak'' then Some ''Permission denied'' else None\<rparr>)
          ''Friday'' sample_files)) = True \<and>
   fs (snd (main sample_config
          (sample_env\<lparr>remove_err := \<lambda>p. if p = ''/data/sun.bak'' then Some ''Permission denied'' else None\<rparr>)
          ''Friday'' sample_files)) ''/data/sun.bak'' = Some (Raw [1]) \<and>
   fs (snd (main sample_config
          (sample_env\<lparr>remove_err := \<lambda>p. if p = ''/data/sun.bak'' then Some ''Permission denied'' else None\<rparr>)
          ''Friday'' sample_files)) ''/data/mon.bak'' = Some (Raw [2])"
proof (intro conjI)
  let ?E = "sample_env\<lparr>remove_err := \<lambda>p. if p = ''/data/sun.bak'' then Some ''Permission denied'' else None\<rparr>"
  show "fst (main sample_config ?E ''Friday'' sample_files) = 1"
    by code_simp
  show "sent (snd (main sample_config ?E ''Friday'' sample_files)) =
     [(''Backup Deletion Failed for Sunday'',
       ''Failed to delete backup file /data/sun.bak. Error: Permission denied'', True),
      (''Backup Process Successful for Friday'',
       ''The backup file '' @ [CHR 0x27] @ ''fri.bak'' @ [CHR 0x27] @
       '' was successfully compressed, transferred, and old backups deleted.'', True)]"
    by code_simp
  show "process_success (snd (main sample_config ?E ''Friday'' sample_files)) = True"
    by code_simp
  show "fs (snd (main sample_config ?E ''Friday'' sample_files)) ''/data/sun.bak'' = Some (Raw [1])"
    by code_simp
  show "fs (snd (main sample_config ?E ''Friday'' sample_files)) ''/data/mon.bak'' = Some (Raw [2])"
    by code_simp
qed

subsection \<open>Compression and transfer: results and frame\<close>

lemma cat_result:
  "fst (compress_and_transfer cfg env d n s) = None \<or>
   (\<exists>e. fst (compress_and_transfer cfg env d n s) = Some (Exception e))"
  by (auto simp: compress_and_transfer_def compress_def shutil_copy_def Let_def split: option.splits)

lemma cat_flag:
  "process_success (snd (compress_and_transfer cfg env d n s)) = process_success s"
  and cat_sent: "sent (snd (compress_and_transfer cfg env d n s)) = sent s"
  by (auto simp: compress_and_transfer_def compress_def shutil_copy_def Let_def split: option.splits)

lemma cat_frame:
  "p \<noteq> zip_file_path cfg n \<Longrightarrow>
   p \<noteq> copy_dest env (zip_file_path cfg n) (FILE_SERVER_DIRECTORY cfg) \<Longrightarrow>
   fs (snd (compress_and_transfer cfg env d n s)) p = fs s p"
  by (auto simp: compress_and_transfer_def compress_def shutil_copy_def Let_def split: option.splits)


subsection \<open>What the steps can raise, and runs that exit with code 0\<close>

lemma delete_next_backups_result:
  "fst (delete_next_backups cfg env d k s) = None \<or>
   fst (delete_next_backups cfg env d k s) = Some (SystemExit 1) \<or>
   (\<exists>e. fst (delete_next_backups cfg env d k s) = Some (Exception e))"
proof (cases "get_next_days d k")
  case (Inl a)
  then show ?thesis
    by (cases "index_of days_of_week d") (auto simp: delete_next_backups_def get_next_days_def)
next
  case (Inr days)
  then show ?thesis
    using delete_loop_result[of cfg env days s] by (auto simp: delete_next_backups_def)
qed

lemma main_try_result:
  "fst (main_try cfg env d n s) = None \<or>
   fst (main_try cfg env d n s) = Some (SystemExit 1) \<or>
   (\<exists>e. fst (main_try cfg env d n s) = Some (Exception e))"
proof (cases "fs s (file_path cfg n) = None")
  case True
  then show ?thesis by (simp add: main_try_def Let_def)
next
  case False
  obtain r s' where c: "compress_and_transfer cfg env d n s = (r, s')" by fastforce
  show ?thesis
    using False c cat_result[of cfg env d n s]
      delete_next_backups_result[of cfg env d "DAYS_TO_DELETE cfg" s']
    by (auto simp: main_try_def)
qed

lemma main_except_result:
  assumes "r = None \<or> r = Some (SystemExit 1) \<or> (\<exists>e. r = Some (Exception e))"
  shows "fst (main_except env d (r, s)) = None \<and> r = None \<and> main_except env d (r, s) = (None, s) \<or>
         fst (main_except env d (r, s)) = Some (SystemExit 1)"
  using assms by (auto simp: main_except_def Let_def)

lemma main_finally_result:
  assumes "r = None \<or> r = Some (SystemExit 1)"
  shows "fst (main_finally cfg env d n (r, s)) = None \<or>
         fst (main_finally cfg env d n (r, s)) = Some (SystemExit 1)"
  using assms by (auto simp: main_finally_def Let_def split: option.splits)

lemma main_finally_None:
  assumes "fst (main_finally cfg env d n (r, s)) = None"
  shows "r = None \<and> fs (snd (main_finally cfg env d n (r, s))) = (fs s)(zip_file_path cfg n := None)"
  using assms by (auto simp: main_finally_def Let_def split: option.splits if_splits)

text \<open>A run with exit code 0 went through every step without an error.\<close>

lemma main_success:
  assumes "fst (main cfg env d files) = 0"
  shows "\<exists>n s2 days s3.
           FILES_MAP cfg d = Some n \<and> n \<noteq> [] \<and> files (file_path cfg n) \<noteq> None \<and>
           compress_and_transfer cfg env d n (startup d files) = (None, s2) \<and>
           get_next_days d (DAYS_TO_DELETE cfg) = Inr days \<and>
           delete_loop cfg env days s2 = (None, s3) \<and>
           fs (snd (main cfg env d files)) = (fs s3)(zip_file_path cfg n := None)"
proof -
  from assms obtain n where n: "FILES_MAP cfg d = Some n" "n \<noteq> []"
    by (cases "FILES_MAP cfg d") (auto simp: main_def Let_def split: if_splits)
  let ?s = "startup d files"
  obtain r1 s1 where t: "main_try cfg env d n ?s = (r1, s1)" by fastforce
  obtain r2 s2 where e: "main_except env d (r1, s1) = (r2, s2)" by fastforce
  let ?R = "main_finally cfg env d n (r2, s2)"
  have m: "main cfg env d files = (exit_code (fst ?R), snd ?R)"
    using main_workflow[OF n, where env = env and files = files] t e by simp
  have r1: "r1 = None \<or> r1 = Some (SystemExit 1) \<or> (\<exists>e. r1 = Some (Exception e))"
    using main_try_result[of cfg env d n ?s] t by simp
  from main_except_result[OF r1, of env d s1] e
  have r2: "r2 = None \<and> r1 = None \<and> s2 = s1 \<or> r2 = Some (SystemExit 1)" by auto
  then have "r2 = None \<or> r2 = Some (SystemExit 1)" by blast
  from main_finally_result[OF this, of cfg env d n s2] assms m
  have R: "fst ?R = None" by (auto simp: exit_code_def)
  from main_finally_None[OF R] have f: "r2 = None"
    "fs (snd ?R) = (fs s2)(zip_file_path cfg n := None)" by blast+
  with r2 have r1N: "r1 = None" and s21: "s2 = s1" by auto
  have ex: "fs ?s (file_path cfg n) \<noteq> None"
    using t r1N by (auto simp: main_try_def Let_def split: if_splits)
  obtain rc sc where c: "compress_and_transfer cfg env d n ?s = (rc, sc)" by fastforce
  have dn: "rc = None \<and> delete_next_backups cfg env d (DAYS_TO_DELETE cfg) sc = (None, s1)"
    using t r1N ex c by (auto simp: main_try_def split: option.splits)
  then obtain days where days: "get_next_days d (DAYS_TO_DELETE cfg) = Inr days"
    "delete_loop cfg env days sc = (None, s1)"
    by (auto simp: delete_next_backups_def split: sum.splits)
  show ?thesis
    using n ex c dn days f(2) s21 m by (auto simp: startup_def)
qed


subsection \<open>A failure of compression or transfer\<close>




subsection \<open>The retention window after a successful run\<close>

lemma get_next_days_canonical:
  assumes "get_next_days W D = Inr days"
  shows "set days \<subseteq> set days_of_week" and "length days = nat D"
proof -
  from assms obtain s where s: "index_of days_of_week W = Some s"
    by (cases "index_of days_of_week W") (simp_all add: get_next_days_def)
  from assms get_next_days_Inr[OF s, of D]
  have d: "days = map (\<lambda>i. days_of_week ! nat ((int s + i) mod 7)) [1..D]" by simp
  have "days_of_week ! nat ((int s + i) mod 7) \<in> set days_of_week" for i
  proof (rule nth_mem)
    have "(int s + i) mod 7 < 7" by simp
    then show "nat ((int s + i) mod 7) < length days_of_week"
      by (simp add: distinct_days(2))
  qed
  then show "set days \<subseteq> set days_of_week" unfolding d set_map by blast
  show "length days = nat D" unfolding d by simp
qed

lemma window_paths_mem:
  "d \<in> set days \<Longrightarrow> FILES_MAP cfg d = Some m \<Longrightarrow> m \<noteq> [] \<Longrightarrow>
   join (SOURCE_DIRECTORY cfg) m \<in> set (window_paths cfg days)"
  by (simp add: window_paths_def) force

text \<open>
  Claim C4, as amended. With a retention window of 3 and a file name configured for each
  of the seven weekdays, a run that exits with code 0 has computed the three weekdays that
  follow today in canonical order, and afterwards no file configured for one of these three
  days exists in the source directory. A file configured for a weekday outside the window
  is as it was before the run, provided its path is not also the path of a file configured
  for a day of the window. Nothing is stated for a path that is the temporary archive or
  the destination of the transfer.
\<close>

theorem retention_window_effect:
  assumes "DAYS_TO_DELETE cfg = 3"
    and "\<forall>d \<in> set days_of_week. \<exists>m. FILES_MAP cfg d = Some m \<and> m \<noteq> []"
    and "fst (main cfg env today files) = 0"
  shows "\<exists>n days.
           FILES_MAP cfg today = Some n \<and> get_next_days today 3 = Inr days \<and> length days = 3 \<and>
           (\<forall>d \<in> set days. \<forall>m. FILES_MAP cfg d = Some m \<longrightarrow>
              fs (snd (main cfg env today files)) (join (SOURCE_DIRECTORY cfg) m) = None) \<and>
           (\<forall>d \<in> set days_of_week. d \<notin> set days \<longrightarrow>
              (\<forall>m. FILES_MAP cfg d = Some m \<and>
                   join (SOURCE_DIRECTORY cfg) m \<notin> set (window_paths cfg days) \<and>
                   join (SOURCE_DIRECTORY cfg) m \<noteq> zip_file_path cfg n \<and>
                   join (SOURCE_DIRECTORY cfg) m \<noteq>
                     copy_dest env (zip_file_path cfg n) (FILE_SERVER_DIRECTORY cfg) \<longrightarrow>
                   fs (snd (main cfg env today files)) (join (SOURCE_DIRECTORY cfg) m) =
                     files (join (SOURCE_DIRECTORY cfg) m)))"
proof -
  from main_success[OF assms(3)] obtain n s2 days s3 where
    n: "FILES_MAP cfg today = Some n" and
    c: "compress_and_transfer cfg env today n (startup today files) = (None, s2)" and
    g: "get_next_days today (DAYS_TO_DELETE cfg) = Inr days" and
    l: "delete_loop cfg env days s2 = (None, s3)" and
    f: "fs (snd (main cfg env today files)) = (fs s3)(zip_file_path cfg n := None)"
    by blast
  have g3: "get_next_days today 3 = Inr days" using g assms(1) by simp
  have len: "length days = 3" using get_next_days_canonical(2)[OF g3] by simp
  have sub: "set days \<subseteq> set days_of_week" using get_next_days_canonical(1)[OF g3] .
  have s3: "s3 = snd (delete_loop cfg env days s2)" and l0: "fst (delete_loop cfg env days s2) = None"
    using l by simp_all
  have s2: "s2 = snd (compress_and_transfer cfg env today n (startup today files))"
    using c by simp
  have gone: "fs (snd (main cfg env today files)) (join (SOURCE_DIRECTORY cfg) m) = None"
    if d: "d \<in> set days" and m: "FILES_MAP cfg d = Some m" for d m
  proof -
    from d sub have "d \<in> set days_of_week" by (rule subsetD[rotated])
    with assms(2) m have "m \<noteq> []" by auto
    from window_paths_mem[OF d m this]
    have "fs s3 (join (SOURCE_DIRECTORY cfg) m) = None"
      unfolding s3 by (rule delete_loop_removed[OF l0])
    then show ?thesis by (simp add: f)
  qed
  have kept: "fs (snd (main cfg env today files)) p = files p"
    if p1: "p \<notin> set (window_paths cfg days)" and p2: "p \<noteq> zip_file_path cfg n"
      and p3: "p \<noteq> copy_dest env (zip_file_path cfg n) (FILE_SERVER_DIRECTORY cfg)" for p
  proof -
    have "fs s3 p = fs s2 p" unfolding s3 by (rule delete_loop_frame[OF p1])
    also have "\<dots> = fs (startup today files) p" unfolding s2 by (rule cat_frame[OF p2 p3])
    also have "\<dots> = files p" by (simp add: startup_def)
    finally show ?thesis using p2 by (simp add: f)
  qed
  show ?thesis
  proof (intro exI conjI ballI allI impI)
    show "FILES_MAP cfg today = Some n" by (rule n)
    show "get_next_days today 3 = Inr days" by (rule g3)
    show "length days = 3" by (rule len)
  next
    fix d m assume "d \<in> set days" "FILES_MAP cfg d = Some m"
    then show "fs (snd (main cfg env today files)) (join (SOURCE_DIRECTORY cfg) m) = None"
      by (rule gone)
  next
    fix d m
    assume "FILES_MAP cfg d = Some m \<and>
       join (SOURCE_DIRECTORY cfg) m \<notin> set (window_paths cfg days) \<and>
       join (SOURCE_DIRECTORY cfg) m \<noteq> zip_file_path cfg n \<and>
       join (SOURCE_DIRECTORY cfg) m \<noteq> copy_dest env (zip_file_path cfg n) (FILE_SERVER_DIRECTORY cfg)"
    then show "fs (snd (main cfg env today files)) (join (SOURCE_DIRECTORY cfg) m) =
                 files (join (SOURCE_DIRECTORY cfg) m)"
      using kept by blast
  qed
qed

theorem retention_window_effect_witness:
  "fst (main sample_config sample_env ''Sunday'' sample_files) = 0 \<and>
   fs (snd (main sample_config sample_env ''Sunday'' sample_files)) ''/data/mon.bak'' = None \<and>
   fs (snd (main sample_config sample_env ''Sunday'' sample_files)) ''/data/wed.bak'' = None \<and>
   fs (snd (main sample_config sample_env ''Sunday'' sample_files)) ''/data/fri.bak'' = Some (Raw [4])"
proof -
  have h1: "DAYS_TO_DELETE sample_config = 3" by code_simp
  have h2: "\<forall>d \<in> set days_of_week. \<exists>m. FILES_MAP sample_config d = Some m \<and> m \<noteq> []"
    by (simp add: days_of_week_def sample_config_def)
  have h3: "fst (main sample_config sample_env ''Sunday'' sample_files) = 0" by code_simp
  from retention_window_effect[OF h1 h2 h3] obtain n days where
    n: "FILES_MAP sample_config ''Sunday'' = Some n" and
    g: "get_next_days ''Sunday'' 3 = Inr days" and
    gone: "\<And>d m. d \<in> set days \<Longrightarrow> FILES_MAP sample_config d = Some m \<Longrightarrow>
             fs (snd (main sample_config sample_env ''Sunday'' sample_files))
                (join (SOURCE_DIRECTORY sample_config) m) = None" and
    kept: "\<And>d m. d \<in> set days_of_week \<Longrightarrow> d \<notin> set days \<Longrightarrow>
             FILES_MAP sample_config d = Some m \<Longrightarrow>
             join (SOURCE_DIRECTORY sample_config) m \<notin> set (window_paths sample_config days) \<Longrightarrow>
             join (SOURCE_DIRECTORY sample_config) m \<noteq> zip_file_path sample_config n \<Longrightarrow>
             join (SOURCE_DIRECTORY sample_config) m \<noteq>
               copy_dest sample_env (zip_file_path sample_config n) (FILE_SERVER_DIRECTORY sample_config) \<Longrightarrow>
             fs (snd (main sample_config sample_env ''Sunday'' sample_files))
                (join (SOURCE_DIRECTORY sample_config) m) =
             sample_files (join (SOURCE_DIRECTORY sample_config) m)"
    by blast
  have "FILES_MAP sample_config ''Sunday'' = Some ''sun.bak''" by code_simp
  with n have n': "n = ''sun.bak''" by simp
  have "get_next_days ''Sunday'' 3 = Inr [''Monday'', ''Tuesday'', ''Wednesday'']" by code_simp
  with g have d': "days = [''Monday'', ''Tuesday'', ''Wednesday'']" by simp
  have jm: "join (SOURCE_DIRECTORY sample_config) ''mon.bak'' = ''/data/mon.bak''" by code_simp
  have jw: "join (SOURCE_DIRECTORY sample_config) ''wed.bak'' = ''/data/wed.bak''" by code_simp
  have jf: "join (SOURCE_DIRECTORY sample_config) ''fri.bak'' = ''/data/fri.bak''" by code_simp
  have mm: "FILES_MAP sample_config ''Monday'' = Some ''mon.bak''" by code_simp
  have mw: "FILES_MAP sample_config ''Wednesday'' = Some ''wed.bak''" by code_simp
  have mf: "FILES_MAP sample_config ''Friday'' = Some ''fri.bak''" by code_simp
  have c2: "fs (snd (main sample_config sample_env ''Sunday'' sample_files)) ''/data/mon.bak'' = None"
    using gone[of "''Monday''" "''mon.bak''"] mm by (simp add: d' jm)
  have c3: "fs (snd (main sample_config sample_env ''Sunday'' sample_files)) ''/data/wed.bak'' = None"
    using gone[of "''Wednesday''" "''wed.bak''"] mw by (simp add: d' jw)
  have f1: "''Friday'' \<in> set days_of_week" by (simp add: days_of_week_def)
  have f2: "''Friday'' \<notin> set days" by (simp add: d')
  have f3: "''/data/fri.bak'' \<notin> set (window_paths sample_config [''Monday'', ''Tuesday'', ''Wednesday''])"
    by code_simp
  have f4: "''/data/fri.bak'' \<noteq> zip_file_path sample_config ''sun.bak''" by code_simp
  have f5: "''/data/fri.bak'' \<noteq>
      copy_dest sample_env (zip_file_path sample_config ''sun.bak'') (FILE_SERVER_DIRECTORY sample_config)"
    by code_simp
  have v: "sample_files ''/data/fri.bak'' = Some (Raw [4])" by code_simp
  have c4: "fs (snd (main sample_config sample_env ''Sunday'' sample_files)) ''/data/fri.bak'' = Some (Raw [4])"
    using kept[of "''Friday''" "''fri.bak''"] f1 f2 mf f3 f4 f5 v by (simp only: d' n' jf simp_thms)
  from h3 c2 c3 c4 show ?thesis by (intro conjI)
qed

text \<open>
  The claim as stated fails when a weekday outside the window is configured with the file
  name of a weekday inside it. On a Sunday the window is Monday to Wednesday; the file
  \<open>/data/mon.bak\<close> is the file of Thursday, which is outside the window, and after the
  successful run it is gone, because it is also the file of Monday.
\<close>

theorem shared_name_counterexample:
  "DAYS_TO_DELETE shared_name_config = 3 \<and>
   map (FILES_MAP shared_name_config) days_of_week =
     [Some ''sun.bak'', Some ''mon.bak'', Some ''tue.bak'', Some ''wed.bak'', Some ''mon.bak'',
      Some ''fri.bak'', Some ''sat.bak''] \<and>
   get_next_days ''Sunday'' (DAYS_TO_DELETE shared_name_config) =
     Inr [''Monday'', ''Tuesday'', ''Wednesday''] \<and>
   FILES_MAP shared_name_config ''Thursday'' = Some ''mon.bak'' \<and>
   join (SOURCE_DIRECTORY shared_name_config) ''mon.bak'' = ''/data/mon.bak'' \<and>
   sample_files ''/data/mon.bak'' = Some (Raw [2]) \<and>
   fst (main shared_name_config sample_env ''Sunday'' sample_files) = 0 \<and>
   fs (snd (main shared_name_config sample_env ''Sunday'' sample_files)) ''/data/mon.bak'' = None"
proof (intro conjI)
  show "DAYS_TO_DELETE shared_name_config = 3" by code_simp
  show "map (FILES_MAP shared_name_config) days_of_week =
     [Some ''sun.bak'', Some ''mon.bak'', Some ''tue.bak'', Some ''wed.bak'', Some ''mon.bak'',
      Some ''fri.bak'', Some ''sat.bak'']" by code_simp
  show "get_next_days ''Sunday'' (DAYS_TO_DELETE shared_name_config) =
     Inr [''Monday'', ''Tuesday'', ''Wednesday'']" by code_simp
  show "FILES_MAP shared_name_config ''Thursday'' = Some ''mon.bak''" by code_simp
  show "join (SOURCE_DIRECTORY shared_name_config) ''mon.bak'' = ''/data/mon.bak''" by code_simp
  show "sample_files ''/data/mon.bak'' = Some (Raw [2])" by code_simp
  show "fst (main shared_name_config sample_env ''Sunday'' sample_files) = 0" by code_simp
  show "fs (snd (main shared_name_config sample_env ''Sunday'' sample_files)) ''/data/mon.bak'' = None"
    by code_simp
qed

subsection \<open>The archive of a successful run\<close>








end
